theory Spec2Isabelle
  imports Complex_Main "HOL-Library.Word" "HOL-Library.Multiset"
begin

section \<open>The GenomeTools interface used by the locus clusterer\<close>

text \<open>
  Coordinates are \<open>unsigned long\<close> values that are only compared, never added, so they
  are natural numbers here.  A \<open>GtRange\<close> is a closed interval: two ranges overlap when
  they share a position.
\<close>

datatype GtRange = Range (range_start: nat) (range_end: nat)

definition gt_range_overlap :: "GtRange \<Rightarrow> GtRange \<Rightarrow> bool" where
  "gt_range_overlap a b \<longleftrightarrow> range_start a \<le> range_end b \<and> range_start b \<le> range_end a"

definition gt_range_join :: "GtRange \<Rightarrow> GtRange \<Rightarrow> GtRange" where
  "gt_range_join a b = Range (min (range_start a) (range_start b)) (max (range_end a) (range_end b))"

text \<open>
  A feature node is an object on the heap; \<open>node_id\<close> stands for its address, so that two
  nodes are the same object exactly when they are equal as values.  The children are the
  sub-features the node iterator descends into.
\<close>

datatype GtFeatureNode =
  FeatureNode (node_id: nat) (node_type: string) (node_range: GtRange)
              (node_children: "GtFeatureNode list")



type_synonym GtError = string

text \<open>
  The feature index holds the top-level features of every sequence.  A range query can
  fail inside the library; \<open>index_query_error\<close> says for which queries it does, besides the
  queries for a sequence the index does not know.
\<close>

record GtFeatureIndex =
  index_features :: "(string \<times> GtFeatureNode list) list"
  index_query_error :: "string \<Rightarrow> GtRange \<Rightarrow> bool"

definition gt_feature_index_has_seqid :: "GtFeatureIndex \<Rightarrow> string \<Rightarrow> bool" where
  "gt_feature_index_has_seqid idx seqid \<longleftrightarrow> seqid \<in> set (map fst (index_features idx))"

definition gt_feature_index_get_seqids :: "GtFeatureIndex \<Rightarrow> string list" where
  "gt_feature_index_get_seqids idx = remdups (map fst (index_features idx))"

definition gt_feature_index_get_features_for_seqid ::
  "GtFeatureIndex \<Rightarrow> string \<Rightarrow> GtError + GtFeatureNode list" where
  "gt_feature_index_get_features_for_seqid idx seqid =
     (case map_of (index_features idx) seqid of
        None \<Rightarrow> Inl ''unknown sequence id''
      | Some fs \<Rightarrow> Inr fs)"

definition gt_feature_index_get_features_for_range ::
  "GtFeatureIndex \<Rightarrow> string \<Rightarrow> GtRange \<Rightarrow> GtError + GtFeatureNode list" where
  "gt_feature_index_get_features_for_range idx seqid r =
     (case map_of (index_features idx) seqid of
        None \<Rightarrow> Inl ''unknown sequence id''
      | Some fs \<Rightarrow>
          if index_query_error idx seqid r then Inl ''query error''
          else Inr (filter (\<lambda>f. gt_range_overlap (node_range f) r) fs))"

text \<open>An index built in memory, whose queries fail for unknown sequences only.\<close>

definition memory_index :: "(string \<times> GtFeatureNode list) list \<Rightarrow> GtFeatureIndex" where
  "memory_index fs = \<lparr>index_features = fs, index_query_error = (\<lambda>s r. False)\<rparr>"

section \<open>Logger\<close>

datatype LogMessage =
    RangeFetchError string nat nat GtError
  | SeqidFetchError string GtError
  | RefrSeqidFetchError string GtError
  | PredSeqidFetchError string GtError

type_synonym AgnLogger = "LogMessage list"

definition agn_logger_log_error :: "AgnLogger \<Rightarrow> LogMessage \<Rightarrow> AgnLogger" where
  "agn_logger_log_error logger m = logger @ [m]"


section \<open>Loci\<close>

record AgnLocus =
  locus_seqid :: string
  locus_range :: GtRange
  locus_genes :: "GtFeatureNode list"

text \<open>
  Modelled from the spec: \<open>agn_locus_new\<close> and \<open>agn_locus_add\<close> live in AgnLocus.c, which is
  not part of the sources at hand.  The spec's data model says a locus has a sequence id, its
  features, and as coordinate range the union of all contained features' ranges.
\<close>

definition agn_locus_new :: "string \<Rightarrow> AgnLocus" where
  "agn_locus_new seqid = \<lparr>locus_seqid = seqid, locus_range = Range 0 0, locus_genes = []\<rparr>"

definition agn_locus_add :: "AgnLocus \<Rightarrow> GtFeatureNode \<Rightarrow> AgnLocus" where
  "agn_locus_add locus fn =
     locus\<lparr>locus_range := (if locus_genes locus = [] then node_range fn
                            else gt_range_join (locus_range locus) (node_range fn)),
           locus_genes := locus_genes locus @ [fn]\<rparr>"

record AgnPairwiseCompareLocus =
  pw_seqid :: string
  pw_range :: GtRange
  pw_refr_genes :: "GtFeatureNode list"
  pw_pred_genes :: "GtFeatureNode list"

text \<open>
  Modelled from the spec: the constructor, the two \<open>add\<close> functions and the getters of
  AgnPairwiseCompareLocus.c, not part of the sources at hand.  A locus keeps its reference
  and its prediction features apart and spans the union of their ranges.
\<close>

definition agn_pairwise_compare_locus_new :: "string \<Rightarrow> AgnPairwiseCompareLocus" where
  "agn_pairwise_compare_locus_new seqid =
     \<lparr>pw_seqid = seqid, pw_range = Range 0 0, pw_refr_genes = [], pw_pred_genes = []\<rparr>"

definition pw_grow_range :: "AgnPairwiseCompareLocus \<Rightarrow> GtFeatureNode \<Rightarrow> GtRange" where
  "pw_grow_range locus fn =
     (if pw_refr_genes locus = [] \<and> pw_pred_genes locus = [] then node_range fn
      else gt_range_join (pw_range locus) (node_range fn))"

definition agn_pairwise_compare_locus_add_refr_gene ::
  "AgnPairwiseCompareLocus \<Rightarrow> GtFeatureNode \<Rightarrow> AgnPairwiseCompareLocus" where
  "agn_pairwise_compare_locus_add_refr_gene locus fn =
     locus\<lparr>pw_range := pw_grow_range locus fn, pw_refr_genes := pw_refr_genes locus @ [fn]\<rparr>"


section \<open>AgnLocusIndex.c: the overlap tests\<close>

text \<open>
  The hash map \<open>visited_genes\<close> is keyed by the address of a node; it is the list of the
  nodes entered so far.  \<open>gt_array_pop\<close> takes the last element, so the query result is
  walked from its end.
\<close>

type_synonym visited = "GtFeatureNode list"



text \<open>
  The pairwise variant declares \<open>unsigned long new_gene_count;\<close> without an initial value
  and returns it as an \<open>int\<close>.  What the variable holds when the function starts is not
  determined by the program, so it is the extra argument \<open>stack_value\<close>.  After a failed
  query the library has left \<open>genes_to_add\<close> empty, and the function goes on to the
  claiming loop all the same.
\<close>

fun pairwise_test_overlap_claim ::
  "GtFeatureNode list \<Rightarrow> visited \<Rightarrow> AgnPairwiseCompareLocus
     \<Rightarrow> (AgnPairwiseCompareLocus \<Rightarrow> GtFeatureNode \<Rightarrow> AgnPairwiseCompareLocus)
     \<Rightarrow> 64 word \<Rightarrow> 64 word \<times> visited \<times> AgnPairwiseCompareLocus" where
  "pairwise_test_overlap_claim [] visited_genes locus add_func new_gene_count =
     (new_gene_count, visited_genes, locus)"
| "pairwise_test_overlap_claim (gene_to_add # rest) visited_genes locus add_func new_gene_count =
     (if gene_to_add \<notin> set visited_genes
      then pairwise_test_overlap_claim rest (gene_to_add # visited_genes)
             (add_func locus gene_to_add) add_func (new_gene_count + 1)
      else pairwise_test_overlap_claim rest visited_genes locus add_func new_gene_count)"

definition agn_locus_index_pairwise_test_overlap ::
  "64 word \<Rightarrow> GtFeatureIndex \<Rightarrow> visited \<Rightarrow> AgnPairwiseCompareLocus
     \<Rightarrow> (AgnPairwiseCompareLocus \<Rightarrow> GtFeatureNode \<Rightarrow> AgnPairwiseCompareLocus)
     \<Rightarrow> AgnLogger \<Rightarrow> int \<times> visited \<times> AgnPairwiseCompareLocus \<times> AgnLogger" where
  "agn_locus_index_pairwise_test_overlap stack_value features visited_genes locus add_func logger =
     (let locusrange = pw_range locus;
          (genes_to_add, logger') =
            (case gt_feature_index_get_features_for_range features (pw_seqid locus) locusrange of
               Inl err \<Rightarrow>
                 ([], agn_logger_log_error logger
                        (RangeFetchError (pw_seqid locus) (range_start locusrange)
                           (range_end locusrange) err))
             | Inr fs \<Rightarrow> (fs, logger))
      in case pairwise_test_overlap_claim (rev genes_to_add) visited_genes locus add_func
                stack_value of
           (new_gene_count, visited_genes', locus') \<Rightarrow>
             (sint (ucast new_gene_count :: 32 word), visited_genes', locus', logger'))"

text \<open>The number of nodes of a query result that a call claims for the locus.\<close>

fun newly_claimed :: "GtFeatureNode list \<Rightarrow> visited \<Rightarrow> nat" where
  "newly_claimed [] visited_genes = 0"
| "newly_claimed (fn # rest) visited_genes =
     (if fn \<notin> set visited_genes then Suc (newly_claimed rest (fn # visited_genes))
      else newly_claimed rest visited_genes)"

section \<open>AgnLocusIndex.c: single-source clustering\<close>

text \<open>The top-level features an index holds for a sequence (none for an unknown one).\<close>

definition index_features_for :: "GtFeatureIndex \<Rightarrow> string \<Rightarrow> GtFeatureNode list" where
  "index_features_for idx seqid =
     (case map_of (index_features idx) seqid of None \<Rightarrow> [] | Some fs \<Rightarrow> fs)"

lemma agn_locus_add_seqid [simp]: "locus_seqid (agn_locus_add l fn) = locus_seqid l"
  by (simp add: agn_locus_add_def)







section \<open>AgnLocusIndex.c: pairwise clustering\<close>






section \<open>AgnLocusStream.c: single-source clustering of transcripts\<close>

text \<open>
  The stream keeps the index of the transcripts it has read, the loci it has built and its
  logger.  \<open>gt_assert\<close> ends the program when its condition is false; \<open>AssertionFailed\<close>
  is that outcome.
\<close>

datatype StreamLogMessage =
    SeqidsError GtError
  | FeaturesError string GtError
  | OverlapError string nat nat GtError

record AgnLocusStream =
  stream_transcripts :: GtFeatureIndex
  stream_loci :: "AgnLocus list"
  stream_logger :: "StreamLogMessage list"

datatype abort = AssertionFailed

definition gt_logger_log :: "AgnLocusStream \<Rightarrow> StreamLogMessage \<Rightarrow> AgnLocusStream" where
  "gt_logger_log stream m = stream\<lparr>stream_logger := stream_logger stream @ [m]\<rparr>"

text \<open>
  Modelled from the spec: \<open>agn_locus_add_transcript\<close> of AgnLocus.c, not part of the sources
  at hand, puts a transcript into a locus, whose range is the union of its features' ranges.
\<close>

definition agn_locus_add_transcript :: "AgnLocus \<Rightarrow> GtFeatureNode \<Rightarrow> AgnLocus" where
  "agn_locus_add_transcript locus fn = agn_locus_add locus fn"

fun query_overlap_claim ::
  "GtFeatureNode list \<Rightarrow> visited \<Rightarrow> AgnLocus \<Rightarrow> int \<Rightarrow> int \<times> visited \<times> AgnLocus" where
  "query_overlap_claim [] visited locus new_trans_count = (new_trans_count, visited, locus)"
| "query_overlap_claim (fn # rest) visited locus new_trans_count =
     (if fn \<notin> set visited
      then query_overlap_claim rest (fn # visited) (agn_locus_add_transcript locus fn)
             (new_trans_count + 1)
      else query_overlap_claim rest visited locus new_trans_count)"

text \<open>After a failed range query the message is logged and the function goes on with the
  array \<open>overlapping\<close>, which the library has left empty.\<close>

definition locus_stream_query_overlap ::
  "AgnLocusStream \<Rightarrow> AgnLocus \<Rightarrow> visited
     \<Rightarrow> abort + (int \<times> visited \<times> AgnLocus \<times> AgnLocusStream)" where
  "locus_stream_query_overlap stream locus visited =
     (let seqid = locus_seqid locus; range = locus_range locus;
          has_seqid = gt_feature_index_has_seqid (stream_transcripts stream) seqid
      in if \<not> has_seqid then Inl AssertionFailed
         else
           (case (case gt_feature_index_get_features_for_range (stream_transcripts stream)
                         seqid range of
                    Inl err \<Rightarrow>
                      ([], gt_logger_log stream
                             (OverlapError seqid (range_start range) (range_end range) err))
                  | Inr fs \<Rightarrow> (fs, stream)) of
              (overlapping, stream') \<Rightarrow>
                (case query_overlap_claim (rev overlapping) visited locus 0 of
                   (new_trans_count, visited', locus') \<Rightarrow>
                     Inr (new_trans_count, visited', locus', stream'))))"

lemma agn_locus_add_transcript_seqid [simp]:
  "locus_seqid (agn_locus_add_transcript l fn) = locus_seqid l"
  by (simp add: agn_locus_add_transcript_def)

lemma query_overlap_claim_seqid:
  "query_overlap_claim fs v l n = (n', v', l') \<Longrightarrow> locus_seqid l' = locus_seqid l"
  by (induction fs arbitrary: v l n) (auto split: if_splits)

lemma query_overlap_claim_visited:
  "query_overlap_claim fs v l n = (n', v', l') \<Longrightarrow>
     set v \<subseteq> set v' \<and> set v' \<subseteq> set v \<union> set fs \<and> n \<le> n' \<and>
     (n < n' \<longrightarrow> (\<exists>x \<in> set fs. x \<notin> set v \<and> x \<in> set v'))"
proof (induction fs arbitrary: v l n)
  case Nil
  then show ?case by simp
next
  case (Cons f fs)
  show ?case
  proof (cases "f \<notin> set v")
    case True
    with Cons.prems
    have "query_overlap_claim fs (f # v) (agn_locus_add_transcript l f) (n + 1) = (n', v', l')"
      by simp
    from Cons.IH[OF this] True show ?thesis by auto
  next
    case False
    with Cons.prems have "query_overlap_claim fs v l n = (n', v', l')"
      by auto
    from Cons.IH[OF this] show ?thesis by auto
  qed
qed

lemma locus_stream_query_overlap_transcripts:
  assumes "locus_stream_query_overlap stream l v = Inr (n, v', l', stream')"
  shows "stream_transcripts stream' = stream_transcripts stream \<and>
         stream_loci stream' = stream_loci stream \<and> locus_seqid l' = locus_seqid l"
  using assms query_overlap_claim_seqid
  by (fastforce simp: locus_stream_query_overlap_def Let_def gt_logger_log_def
      split: if_splits sum.splits prod.splits)

lemma locus_stream_query_overlap_progress:
  assumes "locus_stream_query_overlap stream l v = Inr (n, v', l', stream')" and "0 < n"
  shows "card (set (index_features_for (stream_transcripts stream') (locus_seqid l')) - set v')
         < card (set (index_features_for (stream_transcripts stream) (locus_seqid l)) - set v)"
proof -
  let ?idx = "stream_transcripts stream"
  from assms obtain qs where
    c: "query_overlap_claim (rev qs) v l 0 = (n, v', l')"
    and q: "qs = (case gt_feature_index_get_features_for_range ?idx (locus_seqid l)
                         (locus_range l) of Inl e \<Rightarrow> [] | Inr fs \<Rightarrow> fs)"
    by (auto simp: locus_stream_query_overlap_def Let_def split: if_splits sum.splits prod.splits)
  have sub: "set qs \<subseteq> set (index_features_for ?idx (locus_seqid l))"
    unfolding q
    by (auto simp: gt_feature_index_get_features_for_range_def index_features_for_def
        split: option.splits if_splits sum.splits)
  note same = locus_stream_query_overlap_transcripts[OF assms(1)]
  from query_overlap_claim_visited[OF c] assms(2)
  obtain x where x: "x \<in> set qs" "x \<notin> set v" "x \<in> set v'" and vv: "set v \<subseteq> set v'"
    by auto
  let ?U = "set (index_features_for ?idx (locus_seqid l))"
  have "?U - set v' \<subset> ?U - set v" using x vv sub by auto
  then show ?thesis using same by (auto intro: psubset_card_mono)
qed

text \<open>The loop \<open>do { new_trans_count = locus_stream_query_overlap(...); }
  while(new_trans_count > 0);\<close> of \<open>locus_stream_parse\<close>.\<close>

function stream_expand ::
  "AgnLocusStream \<Rightarrow> AgnLocus \<Rightarrow> visited \<Rightarrow> abort + (visited \<times> AgnLocus \<times> AgnLocusStream)" where
  "stream_expand stream locus visited =
     (case locus_stream_query_overlap stream locus visited of
        Inl a \<Rightarrow> Inl a
      | Inr (new_trans_count, visited', locus', stream') \<Rightarrow>
          if new_trans_count > 0 then stream_expand stream' locus' visited'
          else Inr (visited', locus', stream'))"
  by pat_completeness auto
termination
  apply (relation "measure (\<lambda>(stream, l, v).
          card (set (index_features_for (stream_transcripts stream) (locus_seqid l)) - set v))")
   apply simp
  apply (auto dest: locus_stream_query_overlap_progress)
  done

text \<open>The loop over the transcripts of one sequence.  The seed is entered into
  \<open>visited\<close> before the locus is expanded.  Adding the finished locus to the index
  \<open>stream->loci\<close> appends it to the list of loci.\<close>

fun parse_transcripts ::
  "string \<Rightarrow> GtFeatureNode list \<Rightarrow> visited \<Rightarrow> AgnLocusStream
     \<Rightarrow> abort + (visited \<times> AgnLocusStream)" where
  "parse_transcripts seqid [] visited stream = Inr (visited, stream)"
| "parse_transcripts seqid (transcript # rest) visited stream =
     (if transcript \<in> set visited then parse_transcripts seqid rest visited stream
      else
        (case stream_expand stream
                (agn_locus_add_transcript (agn_locus_new seqid) transcript)
                (transcript # visited) of
           Inl a \<Rightarrow> Inl a
         | Inr (visited', locus, stream') \<Rightarrow>
             parse_transcripts seqid rest visited'
               (stream'\<lparr>stream_loci := stream_loci stream' @ [locus]\<rparr>)))"

text \<open>The loop over the sequence ids.  When the features of a sequence cannot be fetched,
  the message is logged and the array is \<open>NULL\<close>, which \<open>gt_array_size\<close> takes as empty.\<close>

fun parse_seqids :: "string list \<Rightarrow> AgnLocusStream \<Rightarrow> abort + AgnLocusStream" where
  "parse_seqids [] stream = Inr stream"
| "parse_seqids (seqid # rest) stream =
     (case (case gt_feature_index_get_features_for_seqid (stream_transcripts stream) seqid of
              Inl err \<Rightarrow> ([], gt_logger_log stream (FeaturesError seqid err))
            | Inr fs \<Rightarrow> (fs, stream)) of
        (features, stream1) \<Rightarrow>
          (case parse_transcripts seqid features [] stream1 of
             Inl a \<Rightarrow> Inl a
           | Inr (visited, stream2) \<Rightarrow> parse_seqids rest stream2))"

definition locus_stream_parse :: "AgnLocusStream \<Rightarrow> abort + AgnLocusStream" where
  "locus_stream_parse stream =
     parse_seqids (gt_feature_index_get_seqids (stream_transcripts stream)) stream"
section \<open>Comparison statistics, cliques and clique pairs\<close>

text \<open>
  A \<open>double\<close> or \<open>float\<close> is a finite number, an infinity or a NaN.  The counts the
  reports divide are unsigned, so a quotient is never negative; a zero divisor gives NaN for a
  zero dividend and infinity otherwise.  Finite arithmetic is taken as exact.
\<close>

datatype cdouble = Finite real | Infinite | NaN

definition c_div :: "nat \<Rightarrow> nat \<Rightarrow> cdouble" where
  "c_div a b = (if b = 0 then (if a = 0 then NaN else Infinite) else Finite (real a / real b))"

definition c_times :: "cdouble \<Rightarrow> real \<Rightarrow> cdouble" where
  "c_times x k = (case x of Finite r \<Rightarrow> Finite (r * k) | Infinite \<Rightarrow> Infinite | NaN \<Rightarrow> NaN)"

text \<open>The test \<open>fabs(x - 1.0) < tolerance\<close>; a comparison with a NaN is false.\<close>

definition fabs_minus_one_below :: "cdouble \<Rightarrow> real \<Rightarrow> bool" where
  "fabs_minus_one_below x t =
     (case x of Finite r \<Rightarrow> \<bar>r - 1\<bar> < t | Infinite \<Rightarrow> False | NaN \<Rightarrow> False)"

record AgnCompStatsBinary =
  correct :: nat
  missing :: nat
  wrong :: nat
  sn :: cdouble
  sp :: cdouble
  f1 :: cdouble
  ed :: cdouble
  sns :: string
  sps :: string
  f1s :: string
  eds :: string

record AgnCompStatsScaled =
  nuc_mcs :: string
  nuc_ccs :: string
  nuc_sns :: string
  nuc_sps :: string
  nuc_f1s :: string
  nuc_eds :: string

record AgnComparisonStats =
  cds_struc_stats :: AgnCompStatsBinary
  exon_struc_stats :: AgnCompStatsBinary
  utr_struc_stats :: AgnCompStatsBinary
  cds_nuc_stats :: AgnCompStatsScaled
  utr_nuc_stats :: AgnCompStatsScaled
  overall_matches :: nat
  overall_length :: nat
  overall_identity :: cdouble
  tolerance :: real

text \<open>A transcript clique is an object; \<open>clique_id\<close> stands for its address.\<close>

record AgnTranscriptClique =
  clique_id :: nat
  clique_transcripts :: "string list"
  clique_num_utrs :: nat

record AgnCliquePair =
  refr_clique :: AgnTranscriptClique
  pred_clique :: AgnTranscriptClique
  pair_stats :: AgnComparisonStats
  refr_vector :: string
  pred_vector :: string



definition agn_clique_pair_get_stats :: "AgnCliquePair \<Rightarrow> AgnComparisonStats" where
  "agn_clique_pair_get_stats pair = pair_stats pair"


text \<open>
  Modelled from the spec: AgnCliquePair.c is not part of the sources at hand, only its header
  AgnCliquePair.h.  A pair needs comparison when there are both reference and prediction
  transcripts; it is simple when it has a single reference transcript and a single
  prediction transcript; it has UTRs when one of its cliques contains any.
\<close>

definition agn_clique_pair_needs_comparison :: "AgnCliquePair \<Rightarrow> bool" where
  "agn_clique_pair_needs_comparison pair \<longleftrightarrow>
     clique_transcripts (refr_clique pair) \<noteq> [] \<and> clique_transcripts (pred_clique pair) \<noteq> []"


definition agn_clique_pair_has_utrs :: "AgnCliquePair \<Rightarrow> bool" where
  "agn_clique_pair_has_utrs pair \<longleftrightarrow>
     clique_num_utrs (refr_clique pair) + clique_num_utrs (pred_clique pair) > 0"





text \<open>
  Modelled from the spec: \<open>agn_clique_pair_compare\<close> (AgnCliquePair.c) and
  \<open>agn_pairwise_compare_locus_find_best_pairs\<close> (AgnPairwiseCompareLocus.c) are not part
  of the sources at hand.  The spec orders pairs by overall identity, then by the correct
  CDS, exon and UTR counts, then by the number of features of both cliques, all descending;
  the comparison gives 1 when the first pair is better, -1 when the second is, 0 otherwise.
  The selector sorts the candidates, best first, and accepts a pair when it needs comparison
  and neither of its cliques has been claimed by a pair accepted before.
\<close>

definition cdouble_less :: "cdouble \<Rightarrow> cdouble \<Rightarrow> bool" where
  "cdouble_less x y =
     (case (x, y) of
        (Finite a, Finite b) \<Rightarrow> a < b
      | (Finite a, Infinite) \<Rightarrow> True
      | _ \<Rightarrow> False)"

fun compare_keys :: "nat list \<Rightarrow> nat list \<Rightarrow> int" where
  "compare_keys (a # as) (b # bs) =
     (if a > b then 1 else if a < b then -1 else compare_keys as bs)"
| "compare_keys _ _ = 0"

definition pair_keys :: "AgnCliquePair \<Rightarrow> nat list" where
  "pair_keys p =
     [correct (cds_struc_stats (pair_stats p)), correct (exon_struc_stats (pair_stats p)),
      correct (utr_struc_stats (pair_stats p)),
      length (clique_transcripts (refr_clique p)) + length (clique_transcripts (pred_clique p))]"

definition agn_clique_pair_compare :: "AgnCliquePair \<Rightarrow> AgnCliquePair \<Rightarrow> int" where
  "agn_clique_pair_compare p1 p2 =
     (if cdouble_less (overall_identity (pair_stats p2)) (overall_identity (pair_stats p1)) then 1
      else if cdouble_less (overall_identity (pair_stats p1)) (overall_identity (pair_stats p2))
        then -1
      else compare_keys (pair_keys p1) (pair_keys p2))"

fun insert_pair :: "AgnCliquePair \<Rightarrow> AgnCliquePair list \<Rightarrow> AgnCliquePair list" where
  "insert_pair p [] = [p]"
| "insert_pair p (q # qs) =
     (if agn_clique_pair_compare p q = 1 then p # q # qs else q # insert_pair p qs)"

definition sort_pairs :: "AgnCliquePair list \<Rightarrow> AgnCliquePair list" where
  "sort_pairs ps = foldr insert_pair (rev ps) []"

fun select_pairs :: "AgnCliquePair list \<Rightarrow> nat list \<Rightarrow> nat list \<Rightarrow> AgnCliquePair list" where
  "select_pairs [] claimed_refr claimed_pred = []"
| "select_pairs (p # ps) claimed_refr claimed_pred =
     (if agn_clique_pair_needs_comparison p \<and>
         clique_id (refr_clique p) \<notin> set claimed_refr \<and>
         clique_id (pred_clique p) \<notin> set claimed_pred
      then p # select_pairs ps (clique_id (refr_clique p) # claimed_refr)
                 (clique_id (pred_clique p) # claimed_pred)
      else select_pairs ps claimed_refr claimed_pred)"

definition agn_pairwise_compare_locus_find_best_pairs ::
  "AgnCliquePair list \<Rightarrow> AgnCliquePair list" where
  "agn_pairwise_compare_locus_find_best_pairs clique_pairs =
     select_pairs (sort_pairs clique_pairs) [] []"
section \<open>AgnCompareTextReportVisitor.c and PeReports.c: what the reports print\<close>

text \<open>
  A report is the list of the things printed, one item for each \<open>fprintf\<close> or group of
  them, with the values printed and without the layout.
\<close>

datatype ReportItem =
    LocusHeading string nat nat
  | GeneIds string "string list"
  | SpliceComplexity
  | NoComparisonsPerformed
  | ExceedsLimitNote nat int
  | BeginComparison
  | EndComparison
  | TranscriptIds string "string list"
  | Gff3 string
  | ModelVectors string string
  | StructureHeading string
  | StructurePerfect string nat
  | StructureCounts string nat nat nat
  | StructureRatios string string string string string
  | NoUtrsAnnotated
  | GeneStructuresMatchPerfectly
  | NucleotideComparison AgnCompStatsScaled AgnCompStatsScaled cdouble
  | UnmatchedCliques string "string list list"
  | CsvRow string nat nat "string list" "string list" AgnComparisonStats
  | HtmlToggleScripts nat
  | HtmlGraphic
  | CompareHeader "string option"
  | HtmlFooter

subsection \<open>AgnCompareTextReportVisitor.c\<close>

text \<open>\<open>printf_c\<close> prints nothing when the stream is \<open>NULL\<close>; \<open>outstream\<close> says whether
  there is a stream.\<close>

definition printf_c :: "bool \<Rightarrow> ReportItem \<Rightarrow> ReportItem list" where
  "printf_c outstream item = (if outstream then [item] else [])"


definition locus_print_structure_report ::
  "bool \<Rightarrow> AgnCompStatsBinary \<Rightarrow> string \<Rightarrow> ReportItem list" where
  "locus_print_structure_report outstream stats label =
     printf_c outstream (StructureHeading label) @
     (if missing stats = 0 \<and> wrong stats = 0
      then printf_c outstream (StructurePerfect label (correct stats))
      else printf_c outstream (StructureCounts label (correct stats) (missing stats) (wrong stats)) @
           printf_c outstream (StructureRatios label (sns stats) (sps stats) (f1s stats) (eds stats)))"

subsection \<open>PeReports.c: the report of one locus\<close>


record PeOptions =
  outfmt :: string
  complimit :: "32 word"
  gff3 :: bool
  vectors :: bool
  locus_graphics :: bool
  html :: bool



definition pe_struct_stats :: "string \<Rightarrow> AgnCompStatsBinary \<Rightarrow> ReportItem list" where
  "pe_struct_stats label stats =
     (if missing stats = 0 \<and> wrong stats = 0
      then [StructurePerfect label (correct stats)]
      else [StructureCounts label (correct stats) (missing stats) (wrong stats),
            StructureRatios label (sns stats) (sps stats) (f1s stats) (eds stats)])"

text \<open>What both the text and the HTML report print of the statistics of one pair: the CDS,
  exon and UTR structure and the nucleotide-level comparison.\<close>

definition pe_pair_stats :: "AgnCliquePair \<Rightarrow> ReportItem list" where
  "pe_pair_stats pair =
     (let pairstats = agn_clique_pair_get_stats pair
      in [StructureHeading ''CDS''] @ pe_struct_stats ''CDS'' (cds_struc_stats pairstats) @
         [StructureHeading ''Exon''] @ pe_struct_stats ''Exon'' (exon_struc_stats pairstats) @
         [StructureHeading ''UTR''] @
         (if \<not> agn_clique_pair_has_utrs pair then [NoUtrsAnnotated]
          else pe_struct_stats ''UTR'' (utr_struc_stats pairstats)) @
         (if fabs_minus_one_below (overall_identity pairstats) (tolerance pairstats)
          then [GeneStructuresMatchPerfectly]
          else [NucleotideComparison (cds_nuc_stats pairstats) (utr_nuc_stats pairstats)
                  (overall_identity pairstats)]))"






subsection \<open>PeReports.c: the summary of a run\<close>

record AgnCompareClassDescription =
  total_length :: nat
  transcript_count :: nat
  refr_exon_count :: nat
  pred_exon_count :: nat
  refr_cds_length :: nat
  pred_cds_length :: nat

record AgnCompareClassAggregateDescription =
  perfect_matches :: AgnCompareClassDescription
  perfect_mislabeled :: AgnCompareClassDescription
  cds_matches :: AgnCompareClassDescription
  exon_matches :: AgnCompareClassDescription
  utr_matches :: AgnCompareClassDescription
  non_matches :: AgnCompareClassDescription

record AgnComparisonCounts =
  num_loci :: nat
  unique_refr :: nat
  unique_pred :: nat
  refr_genes :: nat
  refr_transcripts :: nat
  pred_genes :: nat
  pred_transcripts :: nat
  num_comparisons :: nat
  num_perfect :: nat
  num_mislabeled :: nat
  num_cds_match :: nat
  num_exon_match :: nat
  num_utr_match :: nat
  non_match :: nat

record AgnSummaryData =
  counts :: AgnComparisonCounts
  stats :: AgnComparisonStats
  results :: AgnCompareClassAggregateDescription

text \<open>
  What the summary prints: a count, a number computed by a division in the report function
  itself or by the statistics functions, or a string the statistics functions have
  prepared.
\<close>

datatype SummaryItem =
    Count string nat
  | Number string cdouble
  | Text string string

text \<open>The lines of one class of comparisons: the count, its share of all comparisons and,
  when the class is not empty, the averages over its transcripts.\<close>

definition summary_class ::
  "string \<Rightarrow> nat \<Rightarrow> nat \<Rightarrow> AgnCompareClassDescription \<Rightarrow> SummaryItem list" where
  "summary_class label n comparisons d =
     [Count label n, Number label (c_times (c_div n comparisons) 100)] @
     (if n > 0
      then [Number ''avg. length'' (c_div (total_length d) (transcript_count d)),
            Number ''avg. # refr exons'' (c_div (refr_exon_count d) (transcript_count d)),
            Number ''avg. # pred exons'' (c_div (pred_exon_count d) (transcript_count d)),
            Number ''avg. refr CDS length'' (c_div (refr_cds_length d) (transcript_count d)),
            Number ''avg. pred CDS length'' (c_div (pred_cds_length d) (transcript_count d))]
      else [])"

text \<open>The lines of the CDS and of the exon structure comparison.\<close>

definition summary_structure :: "string \<Rightarrow> AgnCompStatsBinary \<Rightarrow> SummaryItem list" where
  "summary_structure label s =
     [Count (label @ '' reference'') (correct s + missing s),
      Count ''match prediction'' (correct s),
      Number ''match prediction'' (c_times (c_div (correct s) (correct s + missing s)) 100),
      Count ''don't match prediction'' (missing s),
      Number ''don't match prediction'' (c_times (c_div (missing s) (correct s + missing s)) 100),
      Count (label @ '' prediction'') (correct s + wrong s),
      Count ''match reference'' (correct s),
      Number ''match reference'' (c_times (c_div (correct s) (correct s + wrong s)) 100),
      Count ''don't match reference'' (wrong s),
      Number ''don't match reference'' (c_times (c_div (wrong s) (correct s + wrong s)) 100),
      Number ''Sensitivity'' (sn s), Number ''Specificity'' (sp s),
      Number ''F1 Score'' (f1 s), Number ''Annotation edit distance'' (ed s)]"

text \<open>The lines of the UTR structure comparison, whose shares are printed only when
  there are UTR segments.\<close>

definition summary_utr_structure :: "AgnCompStatsBinary \<Rightarrow> SummaryItem list" where
  "summary_utr_structure s =
     [Count ''UTR reference'' (correct s + missing s)] @
     (if correct s + missing s > 0
      then [Count ''match prediction'' (correct s),
            Number ''match prediction'' (c_times (c_div (correct s) (correct s + missing s)) 100),
            Count ''don't match prediction'' (missing s),
            Number ''don't match prediction''
              (c_times (c_div (missing s) (correct s + missing s)) 100)]
      else []) @
     [Count ''UTR prediction'' (correct s + wrong s)] @
     (if correct s + wrong s > 0
      then [Count ''match reference'' (correct s),
            Number ''match reference'' (c_times (c_div (correct s) (correct s + wrong s)) 100),
            Count ''don't match reference'' (wrong s),
            Number ''don't match reference'' (c_times (c_div (wrong s) (correct s + wrong s)) 100)]
      else []) @
     [Text ''Sensitivity'' (sns s), Text ''Specificity'' (sps s),
      Text ''F1 Score'' (f1s s), Text ''Annotation edit distance'' (eds s)]"

definition summary_nucleotide :: "AgnComparisonStats \<Rightarrow> SummaryItem list" where
  "summary_nucleotide s =
     [Text ''CDS matching coefficient'' (nuc_mcs (cds_nuc_stats s)),
      Text ''UTR matching coefficient'' (nuc_mcs (utr_nuc_stats s)),
      Number ''Overall matching coefficient'' (overall_identity s),
      Text ''CDS correlation coefficient'' (nuc_ccs (cds_nuc_stats s)),
      Text ''UTR correlation coefficient'' (nuc_ccs (utr_nuc_stats s)),
      Text ''CDS sensitivity'' (nuc_sns (cds_nuc_stats s)),
      Text ''UTR sensitivity'' (nuc_sns (utr_nuc_stats s)),
      Text ''CDS specificity'' (nuc_sps (cds_nuc_stats s)),
      Text ''UTR specificity'' (nuc_sps (utr_nuc_stats s)),
      Text ''CDS F1 score'' (nuc_f1s (cds_nuc_stats s)),
      Text ''UTR F1 score'' (nuc_f1s (utr_nuc_stats s)),
      Text ''CDS annotation edit distance'' (nuc_eds (cds_nuc_stats s)),
      Text ''UTR annotation edit distance'' (nuc_eds (utr_nuc_stats s))]"

text \<open>The figures both the text summary and the HTML summary print, in this order.  The
  number of shared loci is an \<open>unsigned long\<close> difference.\<close>

definition summary_figures :: "AgnSummaryData \<Rightarrow> SummaryItem list" where
  "summary_figures d =
     (let c = counts d; s = stats d; r = results d
      in [Count ''Gene loci'' (num_loci c),
          Count ''shared''
            (nat ((int (num_loci c) - int (unique_refr c) - int (unique_pred c)) mod 2 ^ 64)),
          Count ''unique to reference'' (unique_refr c),
          Count ''unique to prediction'' (unique_pred c),
          Count ''reference genes'' (refr_genes c),
          Number ''reference genes per locus'' (c_div (refr_genes c) (num_loci c)),
          Count ''reference transcripts'' (refr_transcripts c),
          Number ''reference transcripts per locus'' (c_div (refr_transcripts c) (num_loci c)),
          Number ''reference transcripts per gene'' (c_div (refr_transcripts c) (refr_genes c)),
          Count ''prediction genes'' (pred_genes c),
          Number ''prediction genes per locus'' (c_div (pred_genes c) (num_loci c)),
          Count ''prediction transcripts'' (pred_transcripts c),
          Number ''prediction transcripts per locus'' (c_div (pred_transcripts c) (num_loci c)),
          Number ''prediction transcripts per gene'' (c_div (pred_transcripts c) (pred_genes c)),
          Count ''Total comparisons'' (num_comparisons c)] @
         summary_class ''perfect matches'' (num_perfect c) (num_comparisons c)
           (perfect_matches r) @
         summary_class ''perfect matches with mislabeled UTRs'' (num_mislabeled c)
           (num_comparisons c) (perfect_mislabeled r) @
         summary_class ''CDS structure matches'' (num_cds_match c) (num_comparisons c)
           (cds_matches r) @
         summary_class ''exon structure matches'' (num_exon_match c) (num_comparisons c)
           (exon_matches r) @
         summary_class ''UTR structure matches'' (num_utr_match c) (num_comparisons c)
           (utr_matches r) @
         summary_class ''non-matches'' (non_match c) (num_comparisons c) (non_matches r) @
         summary_structure ''CDS'' (cds_struc_stats s) @
         summary_structure ''Exon'' (exon_struc_stats s) @
         summary_utr_structure (utr_struc_stats s) @
         summary_nucleotide s)"

text \<open>
  \<open>agn_resolve_nucleotide_level_stats\<close> and \<open>agn_resolve_structure_level_stats\<close> belong to
  AgnComparEval.c, not part of the sources at hand; they are the arguments \<open>resolve_nuc\<close>
  and \<open>resolve_struc\<close>.  The overall identity is computed here, from the accumulated sums.
  The CSV format has no summary.
\<close>

definition pe_print_summary ::
  "(AgnCompStatsScaled \<Rightarrow> AgnCompStatsScaled) \<Rightarrow> (AgnCompStatsBinary \<Rightarrow> AgnCompStatsBinary)
     \<Rightarrow> AgnSummaryData \<Rightarrow> PeOptions \<Rightarrow> SummaryItem list" where
  "pe_print_summary resolve_nuc resolve_struc summary_data options =
     (let s = stats summary_data;
          s' = s\<lparr>cds_nuc_stats := resolve_nuc (cds_nuc_stats s),
                 utr_nuc_stats := resolve_nuc (utr_nuc_stats s),
                 overall_identity := c_div (overall_matches s) (overall_length s),
                 cds_struc_stats := resolve_struc (cds_struc_stats s),
                 exon_struc_stats := resolve_struc (exon_struc_stats s),
                 utr_struc_stats := resolve_struc (utr_struc_stats s)\<rparr>;
          summary_data' = summary_data\<lparr>stats := s'\<rparr>
      in if html options then summary_figures summary_data'
         else if outfmt options = ''csv'' then []
         else summary_figures summary_data')"
section \<open>Chains of overlapping genes and the invariants of the clusterer\<close>


definition overlap_rel :: "GtFeatureNode set \<Rightarrow> (GtFeatureNode \<times> GtFeatureNode) set" where
  "overlap_rel G = {(a, b). a \<in> G \<and> b \<in> G \<and> gt_range_overlap (node_range a) (node_range b)}"

definition chain_connected :: "GtFeatureNode set \<Rightarrow> GtFeatureNode \<Rightarrow> GtFeatureNode \<Rightarrow> bool" where
  "chain_connected G a b \<longleftrightarrow> (a, b) \<in> (overlap_rel G)\<^sup>*"

definition component :: "GtFeatureNode set \<Rightarrow> GtFeatureNode \<Rightarrow> GtFeatureNode set" where
  "component G a = {b. chain_connected G a b}"


















section \<open>Example inputs\<close>

text \<open>Three genes on sequence chr1, at [10,50], [45,90] and [200,250].\<close>

definition chr1_gene1 :: GtFeatureNode where
  "chr1_gene1 = FeatureNode 1 ''gene'' (Range 10 50) []"

definition chr1_gene2 :: GtFeatureNode where
  "chr1_gene2 = FeatureNode 2 ''gene'' (Range 45 90) []"

definition chr1_gene3 :: GtFeatureNode where
  "chr1_gene3 = FeatureNode 3 ''gene'' (Range 200 250) []"

definition chr1_index :: GtFeatureIndex where
  "chr1_index = memory_index [(''chr1'', [chr1_gene1, chr1_gene2, chr1_gene3])]"

text \<open>A pairwise locus that holds the first gene as its only reference gene.\<close>

definition chr1_pw_locus :: AgnPairwiseCompareLocus where
  "chr1_pw_locus =
     agn_pairwise_compare_locus_add_refr_gene (agn_pairwise_compare_locus_new ''chr1'') chr1_gene1"


text \<open>A stream that has read the three genes as its transcripts and built no locus yet.\<close>

definition chr1_stream :: AgnLocusStream where
  "chr1_stream = \<lparr>stream_transcripts = chr1_index, stream_loci = [], stream_logger = []\<rparr>"


text \<open>What a run of the stream leaves behind: the loci and the log, or nothing after a failed
  assertion.\<close>

definition stream_result ::
  "abort + AgnLocusStream \<Rightarrow> (AgnLocus list \<times> StreamLogMessage list) option" where
  "stream_result r = (case r of Inl a \<Rightarrow> None | Inr s \<Rightarrow> Some (stream_loci s, stream_logger s))"


text \<open>Statistics, cliques and pairs for the reports.\<close>

definition perfect_struc :: AgnCompStatsBinary where
  "perfect_struc = \<lparr>correct = 2, missing = 0, wrong = 0, sn = Finite 1, sp = Finite 1,
     f1 = Finite 1, ed = Finite 0, sns = ''1.000'', sps = ''1.000'', f1s = ''1.000'',
     eds = ''0.000''\<rparr>"

definition some_nuc :: AgnCompStatsScaled where
  "some_nuc = \<lparr>nuc_mcs = ''0.750'', nuc_ccs = ''0.500'', nuc_sns = ''0.750'', nuc_sps = ''1.000'',
     nuc_f1s = ''0.857'', nuc_eds = ''0.143''\<rparr>"

text \<open>Statistics with perfect structure and 3 of 4 positions matching, for a tolerance of
  1/4: the identity is 1 minus the tolerance.\<close>

definition boundary_stats :: AgnComparisonStats where
  "boundary_stats = \<lparr>cds_struc_stats = perfect_struc, exon_struc_stats = perfect_struc,
     utr_struc_stats = perfect_struc, cds_nuc_stats = some_nuc, utr_nuc_stats = some_nuc,
     overall_matches = 3, overall_length = 4, overall_identity = Finite (3 / 4),
     tolerance = 1 / 4\<rparr>"

definition refr_clique1 :: AgnTranscriptClique where
  "refr_clique1 = \<lparr>clique_id = 1, clique_transcripts = [''refr.t1''], clique_num_utrs = 1\<rparr>"

definition refr_clique2 :: AgnTranscriptClique where
  "refr_clique2 = \<lparr>clique_id = 2, clique_transcripts = [''refr.t2''], clique_num_utrs = 0\<rparr>"

definition pred_clique1 :: AgnTranscriptClique where
  "pred_clique1 = \<lparr>clique_id = 3, clique_transcripts = [''pred.t1''], clique_num_utrs = 0\<rparr>"

definition boundary_pair :: AgnCliquePair where
  "boundary_pair = \<lparr>refr_clique = refr_clique1, pred_clique = pred_clique1,
     pair_stats = boundary_stats, refr_vector = ''CCCC'', pred_vector = ''CCCG''\<rparr>"

text \<open>The same with all 4 positions matching.\<close>

definition identical_pair :: AgnCliquePair where
  "identical_pair = \<lparr>refr_clique = refr_clique2, pred_clique = pred_clique1,
     pair_stats = boundary_stats\<lparr>overall_matches := 4, overall_identity := Finite 1\<rparr>,
     refr_vector = ''CCCC'', pred_vector = ''CCCC''\<rparr>"

definition pair_r1_p1 :: AgnCliquePair where
  "pair_r1_p1 = boundary_pair"

definition pair_r2_p1 :: AgnCliquePair where
  "pair_r2_p1 = identical_pair"


definition report_options :: "string \<Rightarrow> 32 word \<Rightarrow> PeOptions" where
  "report_options fmt limit = \<lparr>outfmt = fmt, complimit = limit, gff3 = False, vectors = False,
     locus_graphics = False, html = (fmt = ''html'')\<rparr>"

definition zero_struc :: AgnCompStatsBinary where
  "zero_struc = \<lparr>correct = 0, missing = 0, wrong = 0, sn = Finite 0, sp = Finite 0,
     f1 = Finite 0, ed = Finite 0, sns = [], sps = [], f1s = [], eds = []\<rparr>"

definition zero_nuc :: AgnCompStatsScaled where
  "zero_nuc = \<lparr>nuc_mcs = [], nuc_ccs = [], nuc_sns = [], nuc_sps = [], nuc_f1s = [],
     nuc_eds = []\<rparr>"

definition zero_class :: AgnCompareClassDescription where
  "zero_class = \<lparr>total_length = 0, transcript_count = 0, refr_exon_count = 0,
     pred_exon_count = 0, refr_cds_length = 0, pred_cds_length = 0\<rparr>"

text \<open>The sums of a run over one reference gene and one prediction gene that do not
  overlap: two loci, each unique to one side, and no comparison.\<close>

definition disjoint_run_summary :: AgnSummaryData where
  "disjoint_run_summary =
     \<lparr>counts = \<lparr>num_loci = 2, unique_refr = 1, unique_pred = 1, refr_genes = 1,
                 refr_transcripts = 1, pred_genes = 1, pred_transcripts = 1,
                 num_comparisons = 0, num_perfect = 0, num_mislabeled = 0, num_cds_match = 0,
                 num_exon_match = 0, num_utr_match = 0, non_match = 0\<rparr>,
      stats = \<lparr>cds_struc_stats = zero_struc, exon_struc_stats = zero_struc,
                utr_struc_stats = zero_struc, cds_nuc_stats = zero_nuc, utr_nuc_stats = zero_nuc,
                overall_matches = 0, overall_length = 0, overall_identity = Finite 0,
                tolerance = 0\<rparr>,
      results = \<lparr>perfect_matches = zero_class, perfect_mislabeled = zero_class,
                  cds_matches = zero_class, exon_matches = zero_class, utr_matches = zero_class,
                  non_matches = zero_class\<rparr>\<rparr>"

section \<open>The single-source clusterer computes the chain components\<close>




lemma chain_refl [simp]: "chain_connected G a a"
  by (simp add: chain_connected_def)






lemma component_self [simp]: "a \<in> component G a"
  by (simp add: component_def)






lemma agn_locus_add_genes [simp]: "locus_genes (agn_locus_add l f) = locus_genes l @ [f]"
  by (simp add: agn_locus_add_def)




















subsection \<open>Distinct loci lie apart\<close>


subsection \<open>The example of three genes\<close>







subsection \<open>The count of the pairwise overlap test\<close>

lemma pairwise_claim_count:
  "fst (pairwise_test_overlap_claim fs v l add n) = n + of_nat (newly_claimed fs v)"
  by (induction fs arbitrary: v l n) auto

lemma pairwise_test_overlap_returns:
  "fst (agn_locus_index_pairwise_test_overlap s features v l add lg) =
     sint (ucast (s + of_nat (newly_claimed
        (rev (case gt_feature_index_get_features_for_range features (pw_seqid l) (pw_range l) of
                Inl e \<Rightarrow> [] | Inr fs \<Rightarrow> fs)) v)) :: 32 word)"
proof -
  have "\<And>fs n v' l'. pairwise_test_overlap_claim fs v l add s = (n, v', l') \<Longrightarrow>
          n = s + of_nat (newly_claimed fs v)"
    using pairwise_claim_count[of _ v l add s] by (metis fst_conv)
  then show ?thesis
    unfolding agn_locus_index_pairwise_test_overlap_def Let_def
    by (auto split: sum.splits prod.splits)
qed
subsection \<open>The stream never fails its assertion\<close>

lemma locus_stream_query_overlap_no_abort:
  assumes "gt_feature_index_has_seqid (stream_transcripts stream) (locus_seqid l)"
  shows "\<exists>n v1 l1 s1. locus_stream_query_overlap stream l v = Inr (n, v1, l1, s1)"
proof -
  obtain qs s1 where a: "(case gt_feature_index_get_features_for_range (stream_transcripts stream)
                         (locus_seqid l) (locus_range l) of
                    Inl err \<Rightarrow>
                      ([], gt_logger_log stream
                             (OverlapError (locus_seqid l) (range_start (locus_range l))
                                (range_end (locus_range l)) err))
                  | Inr fs \<Rightarrow> (fs, stream)) = (qs, s1)"
    by (metis surj_pair)
  obtain n v1 l1 where b: "query_overlap_claim (rev qs) v l 0 = (n, v1, l1)"
    by (metis prod_cases3)
  show ?thesis
    using assms a b by (simp add: locus_stream_query_overlap_def Let_def)
qed

lemma stream_expand_no_abort:
  assumes "gt_feature_index_has_seqid (stream_transcripts stream) (locus_seqid l)"
  shows "\<exists>v' l' stream'. stream_expand stream l v = Inr (v', l', stream') \<and>
           stream_transcripts stream' = stream_transcripts stream \<and>
           stream_loci stream' = stream_loci stream \<and> locus_seqid l' = locus_seqid l"
  using assms
proof (induction stream l v rule: stream_expand.induct)
  case (1 stream l v)
  from locus_stream_query_overlap_no_abort[OF "1.prems"] obtain n v1 l1 s1 where
    q: "locus_stream_query_overlap stream l v = Inr (n, v1, l1, s1)"
    by blast
  note same = locus_stream_query_overlap_transcripts[OF q]
  show ?case
  proof (cases "0 < n")
    case True
    have "gt_feature_index_has_seqid (stream_transcripts s1) (locus_seqid l1)"
      using same "1.prems" by simp
    from "1.IH"[OF q refl refl refl True this] same q True
    show ?thesis by (auto simp: stream_expand.simps[of stream l v])
  next
    case False
    with q same show ?thesis by (simp add: stream_expand.simps[of stream l v])
  qed
qed

lemma parse_transcripts_no_abort:
  assumes "gt_feature_index_has_seqid (stream_transcripts stream) seqid"
  shows "\<exists>v' stream'. parse_transcripts seqid ts v stream = Inr (v', stream') \<and>
           stream_transcripts stream' = stream_transcripts stream \<and>
           (\<forall>L\<in>set (stream_loci stream'). L \<in> set (stream_loci stream) \<or> locus_seqid L = seqid)"
  using assms
proof (induction ts arbitrary: v stream)
  case Nil
  then show ?case by simp
next
  case (Cons t ts)
  show ?case
  proof (cases "t \<in> set v")
    case True
    with Cons show ?thesis by simp
  next
    case False
    let ?l0 = "agn_locus_add_transcript (agn_locus_new seqid) t"
    have s0: "locus_seqid ?l0 = seqid" by (simp add: agn_locus_new_def)
    with Cons.prems have "gt_feature_index_has_seqid (stream_transcripts stream) (locus_seqid ?l0)"
      by simp
    from stream_expand_no_abort[OF this, of "t # v"] obtain v1 l1 s1 where
      e: "stream_expand stream ?l0 (t # v) = Inr (v1, l1, s1)"
      and same: "stream_transcripts s1 = stream_transcripts stream"
        "stream_loci s1 = stream_loci stream" "locus_seqid l1 = locus_seqid ?l0"
      by blast
    let ?s2 = "s1\<lparr>stream_loci := stream_loci s1 @ [l1]\<rparr>"
    have "gt_feature_index_has_seqid (stream_transcripts ?s2) seqid"
      using same Cons.prems by simp
    from Cons.IH[OF this, of v1] obtain v' stream' where
      r: "parse_transcripts seqid ts v1 ?s2 = Inr (v', stream')"
      "stream_transcripts stream' = stream_transcripts ?s2"
      "\<forall>L\<in>set (stream_loci stream'). L \<in> set (stream_loci ?s2) \<or> locus_seqid L = seqid"
      by blast
    have "parse_transcripts seqid (t # ts) v stream = Inr (v', stream')"
      using False e r(1) by simp
    moreover have "\<forall>L\<in>set (stream_loci stream'). L \<in> set (stream_loci stream) \<or> locus_seqid L = seqid"
      using r(3) same s0 by auto
    ultimately show ?thesis using r(2) same by auto
  qed
qed

lemma parse_seqids_no_abort:
  "\<exists>stream'. parse_seqids seqids stream = Inr stream' \<and>
      stream_transcripts stream' = stream_transcripts stream \<and>
      (\<forall>L\<in>set (stream_loci stream'). L \<in> set (stream_loci stream) \<or>
          gt_feature_index_has_seqid (stream_transcripts stream) (locus_seqid L))"
proof (induction seqids arbitrary: stream)
  case Nil
  then show ?case by simp
next
  case (Cons seqid rest)
  let ?idx = "stream_transcripts stream"
  show ?case
  proof (cases "gt_feature_index_get_features_for_seqid ?idx seqid")
    case (Inl err)
    let ?s1 = "gt_logger_log stream (FeaturesError seqid err)"
    have s1: "stream_transcripts ?s1 = ?idx" "stream_loci ?s1 = stream_loci stream"
      by (simp_all add: gt_logger_log_def)
    from Cons.IH[of ?s1] s1 Inl show ?thesis by auto
  next
    case (Inr fs)
    then have has: "gt_feature_index_has_seqid ?idx seqid"
      by (auto simp: gt_feature_index_get_features_for_seqid_def gt_feature_index_has_seqid_def
          split: option.splits dest: map_of_SomeD intro: rev_image_eqI)
    from parse_transcripts_no_abort[OF has, of fs "[]"] obtain v s2 where
      t: "parse_transcripts seqid fs [] stream = Inr (v, s2)"
      "stream_transcripts s2 = ?idx"
      "\<forall>L\<in>set (stream_loci s2). L \<in> set (stream_loci stream) \<or> locus_seqid L = seqid"
      by blast
    from Cons.IH[of s2] obtain stream' where
      r: "parse_seqids rest s2 = Inr stream'" "stream_transcripts stream' = stream_transcripts s2"
      "\<forall>L\<in>set (stream_loci stream'). L \<in> set (stream_loci s2) \<or>
          gt_feature_index_has_seqid (stream_transcripts s2) (locus_seqid L)"
      by blast
    have "parse_seqids (seqid # rest) stream = Inr stream'"
      using Inr t(1) r(1) by simp
    moreover have "\<forall>L\<in>set (stream_loci stream'). L \<in> set (stream_loci stream) \<or>
          gt_feature_index_has_seqid ?idx (locus_seqid L)"
      using r(3) t(2,3) has by auto
    ultimately show ?thesis using r(2) t(2) by auto
  qed
qed

lemma chr1_stream_parse:
  "stream_result (locus_stream_parse chr1_stream) =
     Some ([\<lparr>locus_seqid = ''chr1'', locus_range = Range 10 90,
                           locus_genes = [chr1_gene1, chr1_gene2]\<rparr>,
                         \<lparr>locus_seqid = ''chr1'', locus_range = Range 200 250,
                           locus_genes = [chr1_gene3]\<rparr>], [])"
  by code_simp

subsection \<open>The streaming clusterer builds the chain components of each sequence\<close>














subsection \<open>Components partition the features\<close>



subsection \<open>The streaming clusterer on the example\<close>





subsection \<open>Failed range queries\<close>














section \<open>The reports\<close>

subsection \<open>The pair selector\<close>

lemma select_pairs_sound:
  "distinct (map (\<lambda>p. clique_id (refr_clique p)) (select_pairs ps cr cp)) \<and>
   distinct (map (\<lambda>p. clique_id (pred_clique p)) (select_pairs ps cr cp)) \<and>
   (\<forall>p\<in>set (select_pairs ps cr cp).
       clique_id (refr_clique p) \<notin> set cr \<and> clique_id (pred_clique p) \<notin> set cp \<and>
       agn_clique_pair_needs_comparison p \<and> p \<in> set ps)"
proof (induction ps arbitrary: cr cp)
  case Nil
  then show ?case by simp
next
  case (Cons p ps)
  show ?case
  proof (cases "agn_clique_pair_needs_comparison p \<and>
         clique_id (refr_clique p) \<notin> set cr \<and> clique_id (pred_clique p) \<notin> set cp")
    case True
    from Cons.IH[of "clique_id (refr_clique p) # cr" "clique_id (pred_clique p) # cp"] True
    show ?thesis by auto
  next
    case False
    from Cons.IH[of cr cp] False show ?thesis by auto
  qed
qed

lemma set_insert_pair: "set (insert_pair p qs) = insert p (set qs)"
  by (induction qs) auto

lemma set_sort_pairs: "set (sort_pairs ps) = set ps"
proof -
  have "set (foldr insert_pair xs []) = set xs" for xs
    by (induction xs) (auto simp: set_insert_pair)
  then show ?thesis by (simp add: sort_pairs_def)
qed

lemma two_pairs_best:
  "agn_pairwise_compare_locus_find_best_pairs [pair_r1_p1, pair_r2_p1] = [pair_r2_p1]"
  by (simp add: agn_pairwise_compare_locus_find_best_pairs_def sort_pairs_def pair_r1_p1_def
      pair_r2_p1_def boundary_pair_def identical_pair_def boundary_stats_def
      agn_clique_pair_compare_def cdouble_less_def agn_clique_pair_needs_comparison_def
      refr_clique1_def refr_clique2_def pred_clique1_def)

subsection \<open>The comparison limit\<close>



subsection \<open>Zero denominators\<close>

text \<open>A pair without UTRs is reported as such, with no UTR counts or ratios.  In the summary
  the shares of the UTR segments are printed only when there are UTR segments; the shares of
  the CDS segments and of the exons are always printed.\<close>

lemma summary_structure_unguarded:
  "correct s = 0 \<Longrightarrow> missing s = 0 \<Longrightarrow>
     Number ''match prediction'' NaN \<in> set (summary_structure label s)"
  by (simp add: summary_structure_def c_div_def c_times_def)

lemma summary_utr_structure_guarded:
  "Number l NaN \<notin> set (summary_utr_structure s) \<and> Number l Infinite \<notin> set (summary_utr_structure s)"
  by (auto simp: summary_utr_structure_def c_div_def c_times_def)

lemma pair_without_utrs:
  assumes "\<not> agn_clique_pair_has_utrs pair"
  shows "NoUtrsAnnotated \<in> set (pe_pair_stats pair) \<and>
         StructureRatios ''UTR'' a b c d \<notin> set (pe_pair_stats pair) \<and>
         StructureCounts ''UTR'' x y z \<notin> set (pe_pair_stats pair)"
  using assms by (auto simp: pe_pair_stats_def pe_struct_stats_def Let_def)

section \<open>The claims\<close>











text \<open>
  C5.  Among the pairs the selector accepts (the selector as the spec gives it), no reference
  clique and no prediction clique is in two pairs, and every accepted pair is one of the
  candidates and needs comparison.
\<close>

theorem best_pairs_claim_each_clique_once:
  "distinct (map (\<lambda>p. clique_id (refr_clique p)) (agn_pairwise_compare_locus_find_best_pairs pairs)) \<and>
   distinct (map (\<lambda>p. clique_id (pred_clique p)) (agn_pairwise_compare_locus_find_best_pairs pairs)) \<and>
   (\<forall>p\<in>set (agn_pairwise_compare_locus_find_best_pairs pairs).
       agn_clique_pair_needs_comparison p \<and> p \<in> set pairs)"
  using select_pairs_sound[of "sort_pairs pairs" "[]" "[]"]
  by (simp add: agn_pairwise_compare_locus_find_best_pairs_def set_sort_pairs)

theorem best_pairs_claim_each_clique_once_witness:
  "agn_pairwise_compare_locus_find_best_pairs [pair_r1_p1, pair_r2_p1] = [pair_r2_p1] \<and>
   distinct (map (\<lambda>p. clique_id (pred_clique p))
      (agn_pairwise_compare_locus_find_best_pairs [pair_r1_p1, pair_r2_p1])) \<and>
   agn_clique_pair_needs_comparison pair_r2_p1 \<and>
   clique_id (pred_clique pair_r1_p1) = clique_id (pred_clique pair_r2_p1)"
proof -
  from best_pairs_claim_each_clique_once[of "[pair_r1_p1, pair_r2_p1]"]
  have "distinct (map (\<lambda>p. clique_id (pred_clique p))
      (agn_pairwise_compare_locus_find_best_pairs [pair_r1_p1, pair_r2_p1]))"
    and "\<forall>p\<in>set (agn_pairwise_compare_locus_find_best_pairs [pair_r1_p1, pair_r2_p1]).
       agn_clique_pair_needs_comparison p \<and> p \<in> set [pair_r1_p1, pair_r2_p1]"
    by blast+
  moreover have "clique_id (pred_clique pair_r1_p1) = clique_id (pred_clique pair_r2_p1)"
    by (simp add: pair_r1_p1_def pair_r2_p1_def boundary_pair_def identical_pair_def)
  ultimately show ?thesis by (simp add: two_pairs_best)
qed










text \<open>
  C8.  The claim says no statistic with a zero denominator is reported as NaN, also in the
  summary.  For a run without comparisons the summary prints NaN as the share of the perfect
  matches and as the overall matching coefficient, whatever the statistics functions do: the
  divisions are made in \<open>pe_print_summary\<close> itself, with no test of the denominator.
\<close>

theorem summary_prints_nan:
  "\<forall>resolve_nuc resolve_struc.
     Number ''perfect matches'' NaN
       \<in> set (pe_print_summary resolve_nuc resolve_struc disjoint_run_summary
                 (report_options ''text'' 0)) \<and>
     Number ''Overall matching coefficient'' NaN
       \<in> set (pe_print_summary resolve_nuc resolve_struc disjoint_run_summary
                 (report_options ''text'' 0))"
  by (simp add: pe_print_summary_def report_options_def disjoint_run_summary_def
      summary_figures_def summary_class_def summary_nucleotide_def c_div_def c_times_def Let_def)

text \<open>
  C9.  The claim says the value \<open>agn_locus_index_pairwise_test_overlap\<close> returns is the
  number of genes the call has claimed, counted from zero.  The counter is never set to zero:
  the call below finds the one gene of the sequence already visited, claims nothing, and
  returns the 7 its counter happened to hold.
\<close>

theorem pairwise_test_overlap_count_not_from_zero:
  "fst (agn_locus_index_pairwise_test_overlap 7 chr1_index [chr1_gene1, chr1_gene2, chr1_gene3]
          chr1_pw_locus agn_pairwise_compare_locus_add_refr_gene []) = 7
   \<and> newly_claimed
        (rev (case gt_feature_index_get_features_for_range chr1_index (pw_seqid chr1_pw_locus)
                     (pw_range chr1_pw_locus) of Inl e \<Rightarrow> [] | Inr fs \<Rightarrow> fs))
        [chr1_gene1, chr1_gene2, chr1_gene3] = 0"
  by (simp add: agn_locus_index_pairwise_test_overlap_def memory_index_def chr1_index_def
      chr1_gene1_def chr1_gene2_def chr1_gene3_def chr1_pw_locus_def
      gt_feature_index_get_features_for_range_def agn_pairwise_compare_locus_add_refr_gene_def
      agn_pairwise_compare_locus_new_def pw_grow_range_def gt_range_overlap_def Let_def)

text \<open>
  C10.  \<open>locus_stream_parse\<close> runs to its end without a failed assertion, whatever the
  stream holds: every locus it builds is on a sequence of the transcript index, so the
  \<open>has_seqid\<close> assertion of \<open>locus_stream_query_overlap\<close> holds at every query.
\<close>

theorem locus_stream_parse_assertion_holds:
  "\<exists>stream'. locus_stream_parse stream = Inr stream' \<and>
      (\<forall>L\<in>set (stream_loci stream'). L \<in> set (stream_loci stream) \<or>
          gt_feature_index_has_seqid (stream_transcripts stream) (locus_seqid L))"
  using parse_seqids_no_abort[of "gt_feature_index_get_seqids (stream_transcripts stream)" stream]
  unfolding locus_stream_parse_def by blast

theorem locus_stream_parse_assertion_holds_witness:
  "locus_stream_parse chr1_stream \<noteq> Inl AssertionFailed \<and>
   map locus_range (stream_loci (projr (locus_stream_parse chr1_stream))) = [Range 10 90, Range 200 250] \<and>
   gt_feature_index_has_seqid (stream_transcripts chr1_stream)
       (locus_seqid (hd (stream_loci (projr (locus_stream_parse chr1_stream)))))"
proof -
  from locus_stream_parse_assertion_holds[of chr1_stream] obtain stream' where
    s: "locus_stream_parse chr1_stream = Inr stream'"
    "\<forall>L\<in>set (stream_loci stream'). L \<in> set (stream_loci chr1_stream) \<or>
          gt_feature_index_has_seqid (stream_transcripts chr1_stream) (locus_seqid L)"
    by blast
  from s(1) have l: "stream_loci stream' = [\<lparr>locus_seqid = ''chr1'', locus_range = Range 10 90,
                           locus_genes = [chr1_gene1, chr1_gene2]\<rparr>,
                         \<lparr>locus_seqid = ''chr1'', locus_range = Range 200 250,
                           locus_genes = [chr1_gene3]\<rparr>]"
    using chr1_stream_parse by (simp add: stream_result_def)
  have "hd (stream_loci stream') \<in> set (stream_loci stream')" using l by simp
  with s(2) have "gt_feature_index_has_seqid (stream_transcripts chr1_stream)
       (locus_seqid (hd (stream_loci stream')))"
    by (auto simp: chr1_stream_def)
  with s(1) l show ?thesis by simp
qed



end
